theory Spec2Isabelle
  imports Main
begin

section \<open>Argument construction: \<open>OcrmypdfConfig.get_ocrmypdf_arguments\<close>\<close>

text \<open>
  The option dictionary of \<open>OcrmypdfConfig\<close> maps option names (strings) to a string, a
  path, a float or \<open>None\<close>. Python dictionaries iterate in insertion order, so the
  dictionary is an association list; its keys are distinct. The type of floats is a
  parameter.
\<close>

datatype 'f pyval = Str string | Path string | Float 'f

record 'f OcrmypdfConfig =
  input_path :: string
  output_path :: string
  options :: "(string \<times> 'f pyval option) list"

text \<open>The loop of lines 74-77: \<open>args\<close> is the accumulator that the loop appends to.\<close>

fun append_options :: "(string \<times> 'f pyval option) list \<Rightarrow> 'f pyval list \<Rightarrow> 'f pyval list" where
  "append_options [] args = args"
| "append_options ((arg, val) # rest) args =
     append_options rest
       (case val of None \<Rightarrow> args @ [Str arg] | Some v \<Rightarrow> (args @ [Str arg]) @ [v])"

definition get_ocrmypdf_arguments :: "'f OcrmypdfConfig \<Rightarrow> 'f pyval list" where
  "get_ocrmypdf_arguments c =
     (append_options (options c) [] @ [Path (input_path c)]) @ [Path (output_path c)]"

section \<open>The coalescing delay\<close>



section \<open>Tasks, the worker pool and the scheduler\<close>

datatype task_state = NEW | QUEUED | SLEEPING | ACTIVE | DONE

datatype error = KeyError | AssertionError | RuntimeError

text \<open>
  \<open>OcrTask.future\<close> is the handle of the task's latest submission of \<open>process\<close> to the
  thread pool. The handle is pending, cancelled, running or finished; while it runs, the
  model records where the worker thread stands inside \<open>process\<close>:
  \<^item> \<open>AtLoop\<close>: at the head of the coalescing loop, before line 151;
  \<^item> \<open>Asleep w\<close>: inside \<open>time.sleep\<close> (line 162), which returns at time \<open>w\<close> or later;
  \<^item> \<open>AtRun\<close>: the loop was left by \<open>break\<close>, line 165 comes next;
  \<^item> \<open>InJob\<close>: inside \<open>ocrmypdf.run()\<close> (line 174).
\<close>

datatype future =
    Unsubmitted
  | Pending
  | Cancelled
  | AtLoop
  | Asleep int
  | AtRun
  | InJob
  | Returned
  | Raised

fun running :: "future \<Rightarrow> bool" where
  "running AtLoop = True"
| "running (Asleep w) = True"
| "running AtRun = True"
| "running InJob = True"
| "running f = False"

record OcrTask =
  path :: string
  state :: task_state
  last_touch :: "int option"
  future :: future

datatype observer = Watching | Stopped | Joined

datatype threadpool = Open | ShuttingDown | Gone

text \<open>
  The state of the whole program. Task objects live in \<open>objects\<close>, and a task is named by
  its index there; \<open>current_tasks\<close> is the scheduler's dictionary from paths to tasks.
  \<open>invocations\<close> lists the calls of the external job (task, path, time of the call),
  \<open>raised\<close> the exceptions raised so far, \<open>clock\<close> is \<open>datetime.now()\<close>.
\<close>

record system =
  clock :: int
  delay :: int
  current_tasks :: "(string \<times> nat) list"
  objects :: "OcrTask list"
  max_workers :: nat
  pool :: threadpool
  watchdog :: observer
  invocations :: "(nat \<times> string \<times> int) list"
  raised :: "error list"


definition set_task :: "nat \<Rightarrow> (OcrTask \<Rightarrow> OcrTask) \<Rightarrow> system \<Rightarrow> system" where
  "set_task tid f s = s\<lparr>objects := (objects s)[tid := f (objects s ! tid)]\<rparr>"

definition raise :: "error option \<Rightarrow> system \<Rightarrow> system" where
  "raise e s = (case e of None \<Rightarrow> s | Some x \<Rightarrow> s\<lparr>raised := raised s @ [x]\<rparr>)"

subsection \<open>The methods of \<open>OcrTask\<close> and the scheduler's callbacks\<close>

text \<open>
  A method returns the exception it raised, if any, and the state it left. \<open>submit\<close> of a
  pool that was shut down raises \<open>RuntimeError\<close>.
\<close>

definition on_task_done :: "nat \<Rightarrow> system \<Rightarrow> error option \<times> system" where
  "on_task_done tid s =
     (let p = path (objects s ! tid) in
      if map_of (current_tasks s) p = None then (Some KeyError, s)
      else (None, s\<lparr>current_tasks := filter (\<lambda>kv. fst kv \<noteq> p) (current_tasks s)\<rparr>))"

definition task_done :: "nat \<Rightarrow> system \<Rightarrow> error option \<times> system" where
  "task_done tid s = on_task_done tid (set_task tid (\<lambda>t. t\<lparr>state := DONE\<rparr>) s)"

definition enqueue :: "nat \<Rightarrow> system \<Rightarrow> error option \<times> system" where
  "enqueue tid s =
     (if state (objects s ! tid) \<noteq> NEW \<and> state (objects s ! tid) \<noteq> ACTIVE
      then (Some AssertionError, s)
      else
        let s1 = set_task tid (\<lambda>t. t\<lparr>state := QUEUED\<rparr>) s in
        if pool s1 = Open then (None, set_task tid (\<lambda>t. t\<lparr>future := Pending\<rparr>) s1)
        else (Some RuntimeError, s1))"

definition touch :: "nat \<Rightarrow> system \<Rightarrow> error option \<times> system" where
  "touch tid s =
     (let s1 = set_task tid (\<lambda>t. t\<lparr>last_touch := Some (clock s)\<rparr>) s in
      if state (objects s1 ! tid) = NEW then enqueue tid s1 else (None, s1))"

definition future_cancel :: "future \<Rightarrow> future" where
  "future_cancel f = (if f = Pending then Cancelled else f)"

definition cancel :: "nat \<Rightarrow> system \<Rightarrow> error option \<times> system" where
  "cancel tid s =
     (let s1 = set_task tid (\<lambda>t. t\<lparr>last_touch := None\<rparr>) s in
      if state (objects s1 ! tid) = QUEUED
      then task_done tid (set_task tid (\<lambda>t. t\<lparr>future := future_cancel (future t)\<rparr>) s1)
      else (None, s1))"

definition OcrTask_init :: "string \<Rightarrow> system \<Rightarrow> nat \<times> error option \<times> system" where
  "OcrTask_init p s =
     (let tid = length (objects s);
          s1 = s\<lparr>objects := objects s @
                 [\<lparr>path = p, state = NEW, last_touch = None, future = Unsubmitted\<rparr>]\<rparr>
      in (tid, touch tid s1))"

definition on_file_touched :: "string \<Rightarrow> system \<Rightarrow> error option \<times> system" where
  "on_file_touched p s =
     (case map_of (current_tasks s) p of
        Some tid \<Rightarrow> touch tid s
      | None \<Rightarrow>
          (case OcrTask_init p s of
             (tid, None, s1) \<Rightarrow> (None, s1\<lparr>current_tasks := current_tasks s1 @ [(p, tid)]\<rparr>)
           | (tid, Some e, s1) \<Rightarrow> (Some e, s1)))"

definition on_file_deleted :: "string \<Rightarrow> system \<Rightarrow> error option \<times> system" where
  "on_file_deleted p s =
     (case map_of (current_tasks s) p of
        Some tid \<Rightarrow> cancel tid s
      | None \<Rightarrow> (None, s))"

subsection \<open>\<open>OcrTask.process\<close>, one segment for each place where the worker can be\<close>

text \<open>Lines 151-162: one pass of the coalescing loop, up to \<open>break\<close>, \<open>return\<close> or the sleep.\<close>

definition process_poll :: "nat \<Rightarrow> system \<Rightarrow> system" where
  "process_poll tid s =
     (case last_touch (objects s ! tid) of
        None \<Rightarrow>
          (case task_done tid s of
             (None, s1) \<Rightarrow> set_task tid (\<lambda>t. t\<lparr>future := Returned\<rparr>) s1
           | (Some e, s1) \<Rightarrow> raise (Some e) (set_task tid (\<lambda>t. t\<lparr>future := Raised\<rparr>) s1))
      | Some lt \<Rightarrow>
          (let due = lt + delay s; wait_span = due - clock s in
           if wait_span \<le> 0 then set_task tid (\<lambda>t. t\<lparr>future := AtRun\<rparr>) s
           else set_task tid (\<lambda>t. t\<lparr>state := SLEEPING, future := Asleep (clock s + wait_span)\<rparr>) s))"

text \<open>Lines 165-174: the task becomes active, forgets the touch and calls the external job.\<close>

definition process_activate :: "nat \<Rightarrow> system \<Rightarrow> system" where
  "process_activate tid s =
     (let s1 = set_task tid (\<lambda>t. t\<lparr>state := ACTIVE, last_touch := None, future := InJob\<rparr>) s
      in s1\<lparr>invocations := invocations s1 @ [(tid, path (objects s ! tid), clock s)]\<rparr>)"

text \<open>
  Lines 174-187: the external job has returned the exit status \<open>rc\<close>, which is only
  logged; the task is enqueued again or done.
\<close>

definition process_return :: "nat \<Rightarrow> int \<Rightarrow> system \<Rightarrow> system" where
  "process_return tid rc s =
     (if last_touch (objects s ! tid) \<noteq> None
      then (case enqueue tid s of
              (None, s1) \<Rightarrow> s1
            | (Some e, s1) \<Rightarrow> raise (Some e) (set_task tid (\<lambda>t. t\<lparr>future := Raised\<rparr>) s1))
      else (case task_done tid s of
              (None, s1) \<Rightarrow> set_task tid (\<lambda>t. t\<lparr>future := Returned\<rparr>) s1
            | (Some e, s1) \<Rightarrow> raise (Some e) (set_task tid (\<lambda>t. t\<lparr>future := Raised\<rparr>) s1)))"

subsection \<open>Shutdown\<close>

text \<open>
  Lines 249-258 and the call of line 263: the observer is stopped, every task of a snapshot
  of the dictionary is cancelled, and the pool stops accepting submissions. The call of
  line 263 returns (\<open>shutdown_end\<close>) when no submission is pending or running.
\<close>

fun cancel_all :: "nat list \<Rightarrow> system \<Rightarrow> system" where
  "cancel_all [] s = s"
| "cancel_all (tid # tids) s =
     (case cancel tid s of (e, s1) \<Rightarrow> cancel_all tids (raise e s1))"

definition shutdown_begin :: "system \<Rightarrow> system" where
  "shutdown_begin s =
     (let s1 = (if watchdog s = Watching then s\<lparr>watchdog := Stopped\<rparr> else s);
          tasks = map snd (current_tasks s1);
          s2 = cancel_all tasks s1
      in if pool s2 = Open then s2\<lparr>pool := ShuttingDown\<rparr> else s2)"

definition idle :: "system \<Rightarrow> bool" where
  "idle s = (\<forall>t \<in> set (objects s). future t \<noteq> Pending \<and> \<not> running (future t))"

definition shutdown_end :: "system \<Rightarrow> system" where
  "shutdown_end s =
     (let s1 = (if pool s = ShuttingDown then s\<lparr>pool := Gone\<rparr> else s)
      in if watchdog s1 = Stopped then s1\<lparr>watchdog := Joined\<rparr> else s1)"

subsection \<open>Executions\<close>

text \<open>
  An execution is a list of actions. The observer's thread delivers the events one at a
  time, each callback runs to its end; a worker thread moves a task from one place of
  \<open>process\<close> to the next; time passes between actions. An action that cannot happen in a
  state (a worker that is not there, a pool with no free thread, a sleep that is not over,
  an event after the observer was stopped) gives \<open>None\<close>.
\<close>

datatype action =
    Advance nat
  | Touched string
  | Deleted string
  | Start nat
  | Poll nat
  | Wake nat
  | Activate nat
  | JobReturn nat int
  | ShutdownBegin
  | ShutdownEnd

definition running_count :: "system \<Rightarrow> nat" where
  "running_count s = length (filter (\<lambda>t. running (future t)) (objects s))"

definition at :: "nat \<Rightarrow> future \<Rightarrow> system \<Rightarrow> bool" where
  "at tid f s = (tid < length (objects s) \<and> future (objects s ! tid) = f)"

fun step :: "action \<Rightarrow> system \<Rightarrow> system option" where
  "step (Advance n) s = Some (s\<lparr>clock := clock s + int n\<rparr>)"
| "step (Touched p) s =
     (if watchdog s = Watching
      then (case on_file_touched p s of (e, s1) \<Rightarrow> Some (raise e s1)) else None)"
| "step (Deleted p) s =
     (if watchdog s = Watching
      then (case on_file_deleted p s of (e, s1) \<Rightarrow> Some (raise e s1)) else None)"
| "step (Start tid) s =
     (if at tid Pending s \<and> running_count s < max_workers s \<and> pool s \<noteq> Gone
      then Some (set_task tid (\<lambda>t. t\<lparr>future := AtLoop\<rparr>) s) else None)"
| "step (Poll tid) s = (if at tid AtLoop s then Some (process_poll tid s) else None)"
| "step (Wake tid) s =
     (if tid < length (objects s)
      then (case future (objects s ! tid) of
              Asleep w \<Rightarrow>
                (if w \<le> clock s then Some (set_task tid (\<lambda>t. t\<lparr>future := AtLoop\<rparr>) s)
                 else None)
            | _ \<Rightarrow> None)
      else None)"
| "step (Activate tid) s = (if at tid AtRun s then Some (process_activate tid s) else None)"
| "step (JobReturn tid rc) s =
     (if at tid InJob s then Some (process_return tid rc s) else None)"
| "step ShutdownBegin s =
     (if pool s = Open \<and> watchdog s = Watching then Some (shutdown_begin s) else None)"
| "step ShutdownEnd s =
     (if pool s = ShuttingDown \<and> idle s then Some (shutdown_end s) else None)"


subsection \<open>Consistent states\<close>






section \<open>Facts about the model\<close>



subsection \<open>The steps, written out\<close>

lemma cancel_eq:
  "tid < length (objects s) \<Longrightarrow>
   cancel tid s =
     (let t = objects s ! tid in
      if state t = QUEUED
      then (if map_of (current_tasks s) (path t) = None then Some KeyError else None,
            s\<lparr>objects := (objects s)[tid := t\<lparr>last_touch := None,
                 future := future_cancel (future t), state := DONE\<rparr>],
              current_tasks := (if map_of (current_tasks s) (path t) = None then current_tasks s
                 else filter (\<lambda>kv. fst kv \<noteq> path t) (current_tasks s))\<rparr>)
      else (None, s\<lparr>objects := (objects s)[tid := t\<lparr>last_touch := None\<rparr>]\<rparr>))"
  by (simp add: cancel_def task_done_def on_task_done_def set_task_def Let_def)







lemma step_Deleted_queued:
  assumes "watchdog s = Watching" and "map_of (current_tasks s) p = Some tid"
    and "tid < length (objects s)" and "path (objects s ! tid) = p"
    and "state (objects s ! tid) = QUEUED"
  shows "step (Deleted p) s =
           Some (s\<lparr>objects := (objects s)[tid := (objects s ! tid)\<lparr>last_touch := None,
                      future := future_cancel (future (objects s ! tid)), state := DONE\<rparr>],
                   current_tasks := filter (\<lambda>kv. fst kv \<noteq> p) (current_tasks s)\<rparr>)"
  using assms by (simp add: on_file_deleted_def cancel_eq raise_def Let_def)

lemma step_Deleted_other:
  assumes "watchdog s = Watching" and "map_of (current_tasks s) p = Some tid"
    and "tid < length (objects s)" and "state (objects s ! tid) \<noteq> QUEUED"
  shows "step (Deleted p) s =
           Some (s\<lparr>objects := (objects s)[tid := (objects s ! tid)\<lparr>last_touch := None\<rparr>]\<rparr>)"
  using assms by (simp add: on_file_deleted_def cancel_eq raise_def Let_def)








subsection \<open>Every step keeps the state consistent\<close>


lemma count_update:
  "i < length xs \<Longrightarrow>
   length (filter P (xs[i := x])) + (if P (xs ! i) then 1 else 0) =
   length (filter P xs) + (if P x then 1 else 0)"
proof (induction xs arbitrary: i)
  case Nil
  then show ?case by simp
next
  case (Cons a xs)
  then show ?case by (cases i) auto
qed

lemma count_update_le:
  assumes "i < length xs" and "P x \<longrightarrow> P (xs ! i)"
  shows "length (filter P (xs[i := x])) \<le> length (filter P xs)"
  using count_update [OF assms(1), of P x] assms(2) by (auto split: if_splits)










section \<open>Argument lists\<close>

lemma append_options_acc: "append_options opts args = args @ append_options opts []"
proof (induction opts arbitrary: args)
  case Nil
  show ?case by simp
next
  case (Cons kv opts)
  obtain k v where kv: "kv = (k, v)" by (cases kv)
  show ?case
    unfolding kv
    by (cases v) (simp_all add: Cons.IH [of "_ @ _"] Cons.IH [of "[_]"] Cons.IH [of "[_, _]"])
qed

lemma append_options_append:
  "append_options (xs @ ys) [] = append_options xs [] @ append_options ys []"
proof (induction xs)
  case Nil
  show ?case by simp
next
  case (Cons kv xs)
  obtain k v where kv: "kv = (k, v)" by (cases kv)
  show ?case
    unfolding kv using Cons.IH
    by (cases v)
       (simp_all add: append_options_acc [of _ "[_]"] append_options_acc [of _ "[_, _]"])
qed

lemma append_options_hd:
  "hd (append_options post [] @ [a, b]) = (case post of [] \<Rightarrow> a | (k', v') # rest \<Rightarrow> Str k')"
proof (cases post)
  case Nil
  then show ?thesis by simp
next
  case (Cons kv rest)
  obtain k' v' where kv: "kv = (k', v')" by (cases kv)
  show ?thesis
    unfolding Cons kv
    by (cases v')
       (simp_all add: append_options_acc [of _ "[_]"] append_options_acc [of _ "[_, _]"])
qed

text \<open>
  Claim C10. Whatever the configuration, the argument list is laid out option by option:
  for an option \<open>k\<close> of the dictionary, with the options \<open>pre\<close> before it and \<open>post\<close> after
  it, the list is the arguments of \<open>pre\<close>, then \<open>k\<close>, then the value of \<open>k\<close> when it is
  not \<open>None\<close> and nothing when it is, then the arguments of \<open>post\<close>, then the input path
  and the output path. What follows a key that stands alone is the next key, or the input
  path after the last option. The last two elements of the list are the input path and
  the output path.
\<close>

theorem get_ocrmypdf_arguments_layout:
  assumes "options c = pre @ (k, v) # post"
  shows "get_ocrmypdf_arguments c =
           append_options pre [] @ Str k # (case v of None \<Rightarrow> [] | Some x \<Rightarrow> [x]) @
           append_options post [] @ [Path (input_path c), Path (output_path c)] \<and>
         hd (append_options post [] @ [Path (input_path c), Path (output_path c)]) =
           (case post of [] \<Rightarrow> Path (input_path c) | (k', v') # rest \<Rightarrow> Str k') \<and>
         2 \<le> length (get_ocrmypdf_arguments c) \<and>
         drop (length (get_ocrmypdf_arguments c) - 2) (get_ocrmypdf_arguments c) =
           [Path (input_path c), Path (output_path c)]"
proof -
  have "get_ocrmypdf_arguments c =
           append_options pre [] @ Str k # (case v of None \<Rightarrow> [] | Some x \<Rightarrow> [x]) @
           append_options post [] @ [Path (input_path c), Path (output_path c)]"
    using assms
    by (cases v) (simp_all add: get_ocrmypdf_arguments_def append_options_append
        append_options_acc [of _ "[_]"] append_options_acc [of _ "[_, _]"])
  moreover have "hd (append_options post [] @ [Path (input_path c), Path (output_path c)]) =
           (case post of [] \<Rightarrow> Path (input_path c) | (k', v') # rest \<Rightarrow> Str k')"
    by (rule append_options_hd)
  moreover have "2 \<le> length (get_ocrmypdf_arguments c)"
    by (simp add: get_ocrmypdf_arguments_def)
  moreover have "drop (length (get_ocrmypdf_arguments c) - 2) (get_ocrmypdf_arguments c) =
           [Path (input_path c), Path (output_path c)]"
    by (simp add: get_ocrmypdf_arguments_def)
  ultimately show ?thesis by blast
qed

theorem get_ocrmypdf_arguments_layout_witness:
  "options \<lparr>input_path = ''/input/a.pdf'', output_path = ''/output/a.pdf'',
      options = [(''--jobs'', Some (Str ''1'')), (''--rotate-pages'', None),
                 (''--rotate-pages-threshold'', Some (Float (12::int))),
                 (''--deskew'', None)]\<rparr> =
     [(''--jobs'', Some (Str ''1''))] @ (''--rotate-pages'', None) #
     [(''--rotate-pages-threshold'', Some (Float 12)), (''--deskew'', None)] \<and>
   get_ocrmypdf_arguments \<lparr>input_path = ''/input/a.pdf'', output_path = ''/output/a.pdf'',
      options = [(''--jobs'', Some (Str ''1'')), (''--rotate-pages'', None),
                 (''--rotate-pages-threshold'', Some (Float (12::int))),
                 (''--deskew'', None)]\<rparr> =
     [Str ''--jobs'', Str ''1'', Str ''--rotate-pages'', Str ''--rotate-pages-threshold'',
      Float 12, Str ''--deskew'', Path ''/input/a.pdf'', Path ''/output/a.pdf'']"
  using get_ocrmypdf_arguments_layout
    [of "\<lparr>input_path = ''/input/a.pdf'', output_path = ''/output/a.pdf'',
      options = [(''--jobs'', Some (Str ''1'')), (''--rotate-pages'', None),
                 (''--rotate-pages-threshold'', Some (Float (12::int))),
                 (''--deskew'', None)]\<rparr>"
        "[(''--jobs'', Some (Str ''1''))]" "''--rotate-pages''" None
        "[(''--rotate-pages-threshold'', Some (Float 12)), (''--deskew'', None)]"]
  by simp

section \<open>Job failure\<close>


section \<open>The assertion of \<open>enqueue\<close>\<close>




section \<open>The size of the pool\<close>








end
